theory Spec2Isabelle
  imports Complex_Main
begin

section \<open>JavaScript numbers\<close>

text \<open>
  The scroll offsets, the header height, the timestamps and the two thresholds are
  JavaScript numbers. The comparisons of the scroll handler and of the sampler's callback
  behave differently on \<open>NaN\<close> and on the infinities, so these are values of the model.
  Finite values are real numbers: rounding of finite results, overflow of a finite
  result to an infinity and the sign of zero are not modelled (every zero is \<open>+0\<close>, the
  zero that \<open>a - a\<close> and \<open>Math.abs\<close> produce).
\<close>

datatype jsnum = Fin real | PInf | NInf | NaN

fun js_neg :: "jsnum \<Rightarrow> jsnum" where
  "js_neg (Fin a) = Fin (- a)"
| "js_neg PInf = NInf"
| "js_neg NInf = PInf"
| "js_neg NaN = NaN"

fun js_add :: "jsnum \<Rightarrow> jsnum \<Rightarrow> jsnum" where
  "js_add NaN _ = NaN"
| "js_add _ NaN = NaN"
| "js_add (Fin a) (Fin b) = Fin (a + b)"
| "js_add PInf NInf = NaN"
| "js_add NInf PInf = NaN"
| "js_add PInf _ = PInf"
| "js_add _ PInf = PInf"
| "js_add NInf _ = NInf"
| "js_add _ NInf = NInf"

definition js_sub :: "jsnum \<Rightarrow> jsnum \<Rightarrow> jsnum" where
  "js_sub a b = js_add a (js_neg b)"

fun js_abs :: "jsnum \<Rightarrow> jsnum" where
  "js_abs (Fin a) = Fin \<bar>a\<bar>"
| "js_abs PInf = PInf"
| "js_abs NInf = PInf"
| "js_abs NaN = NaN"

fun js_mul :: "jsnum \<Rightarrow> jsnum \<Rightarrow> jsnum" where
  "js_mul NaN _ = NaN"
| "js_mul _ NaN = NaN"
| "js_mul (Fin a) (Fin b) = Fin (a * b)"
| "js_mul PInf (Fin b) = (if b = 0 then NaN else if 0 < b then PInf else NInf)"
| "js_mul NInf (Fin b) = (if b = 0 then NaN else if 0 < b then NInf else PInf)"
| "js_mul (Fin a) PInf = (if a = 0 then NaN else if 0 < a then PInf else NInf)"
| "js_mul (Fin a) NInf = (if a = 0 then NaN else if 0 < a then NInf else PInf)"
| "js_mul PInf PInf = PInf"
| "js_mul PInf NInf = NInf"
| "js_mul NInf PInf = NInf"
| "js_mul NInf NInf = PInf"

fun js_div :: "jsnum \<Rightarrow> jsnum \<Rightarrow> jsnum" where
  "js_div NaN _ = NaN"
| "js_div _ NaN = NaN"
| "js_div (Fin a) (Fin b) =
     (if b = 0 then (if a = 0 then NaN else if 0 < a then PInf else NInf)
      else Fin (a / b))"
| "js_div (Fin a) PInf = Fin 0"
| "js_div (Fin a) NInf = Fin 0"
| "js_div PInf (Fin b) = (if 0 \<le> b then PInf else NInf)"
| "js_div NInf (Fin b) = (if 0 \<le> b then NInf else PInf)"
| "js_div PInf PInf = NaN"
| "js_div PInf NInf = NaN"
| "js_div NInf PInf = NaN"
| "js_div NInf NInf = NaN"

text \<open>\<open>a < b\<close>: false as soon as one side is \<open>NaN\<close>.\<close>

fun js_lt :: "jsnum \<Rightarrow> jsnum \<Rightarrow> bool" where
  "js_lt NaN _ = False"
| "js_lt _ NaN = False"
| "js_lt (Fin a) (Fin b) = (a < b)"
| "js_lt _ NInf = False"
| "js_lt PInf _ = False"
| "js_lt NInf _ = True"
| "js_lt _ PInf = True"

text \<open>\<open>a === b\<close> on numbers: \<open>NaN\<close> is equal to nothing, itself included.\<close>

fun js_eq :: "jsnum \<Rightarrow> jsnum \<Rightarrow> bool" where
  "js_eq (Fin a) (Fin b) = (a = b)"
| "js_eq PInf PInf = True"
| "js_eq NInf NInf = True"
| "js_eq _ _ = False"

definition js_le :: "jsnum \<Rightarrow> jsnum \<Rightarrow> bool" where
  "js_le a b = (js_lt a b \<or> js_eq a b)"

definition js_gt :: "jsnum \<Rightarrow> jsnum \<Rightarrow> bool" where
  "js_gt a b = js_lt b a"

definition js_ge :: "jsnum \<Rightarrow> jsnum \<Rightarrow> bool" where
  "js_ge a b = js_le b a"

section \<open>The page, as the composable reads it\<close>

text \<open>
  A DOM node is the document's root element or another element. Scroll events are
  dispatched on the window (for the document) or on an element.
\<close>

datatype node = DocumentElement | Element nat

datatype scroll_target = Window | Node node

text \<open>
  Everything one turn of the event loop reads from outside: whether a window exists, the
  current values of the two references (\<open>unref(mergedOptions.root)\<close>, \<open>unref(target)\<close>),
  the layout of each node (\<open>scrollTop\<close>, \<open>scrollHeight\<close>, the computed margins after
  \<open>parseFloat\<close>, the computed \<open>position\<close> and \<open>display\<close>) and \<open>performance.now()\<close>.
  The theorems quantify over it, so the page may change in any way between two turns.
\<close>

record env =
  hasWindow :: bool
  rootRef :: "node option"
  targetRef :: "node option"
  scrollTop :: "node \<Rightarrow> jsnum"
  scrollHeight :: "node \<Rightarrow> jsnum"
  marginTop :: "node \<Rightarrow> jsnum"
  marginBottom :: "node \<Rightarrow> jsnum"
  position :: "node \<Rightarrow> string"
  display :: "node \<Rightarrow> string"
  now :: jsnum

text \<open>
  A style object is a list of property and value pairs, in the order of its keys.
  \<open>mergedOptions\<close> is computed once by \<open>mergeDefined\<close>; its fields are parameters here,
  and so is the constant \<open>CAPTURE_DELTA_FRAME_COUNT\<close> of \<open>constants.ts\<close>, a frame count.
  The product \<open>x * 1.2\<close> of the restoration check is rounded to a double, and the rounding
  can decide the comparison that follows; it is the parameter \<open>times_1_2\<close>, so that what
  is proved of the check holds for the product of the engine, whatever it rounds to.
\<close>

type_synonym styles = "(string \<times> string) list"

record params =
  enterStyles :: styles
  leaveStyles :: styles
  enterDelta :: jsnum
  leaveDelta :: jsnum
  CAPTURE_DELTA_FRAME_COUNT :: nat
  times_1_2 :: "jsnum \<Rightarrow> jsnum"

text \<open>
  Modelled from the spec: the constants \<open>VISIBILITY_VISIBLE\<close> and \<open>VISIBILITY_HIDDEN\<close> of
  \<open>constants.ts\<close>, which is not among the source files. The spec calls them the
  "explicit visible-visibility override" and "the \<open>hidden\<close> visibility value" of "the
  visibility property".
\<close>

definition VISIBILITY_VISIBLE :: styles where
  "VISIBILITY_VISIBLE = [(''visibility'', ''visible'')]"

definition VISIBILITY_HIDDEN :: styles where
  "VISIBILITY_HIDDEN = [(''visibility'', ''hidden'')]"

section \<open>The state of one \<open>useFixedHeader\<close> call\<close>

datatype direction = Enter | Leave

text \<open>
  A callback waiting for an animation frame: the restoration check, or \<open>rafDelta\<close> of one
  \<open>captureDelta\<close> run with the variables of its closure (which callback it reports to,
  \<open>frameCount\<close>, \<open>startMs\<close>, \<open>startY\<close>).
\<close>

datatype raf_task = Restoration | RafDelta direction nat jsnum jsnum

text \<open>
  The variables of the closures (\<open>isVisible\<close>, \<open>isListeningScroll\<close>, the three of
  \<open>createScrollHandler\<close>, \<open>skipInitial\<close>, \<open>resizeObserver\<close>) and what the code has done to
  the page: the scroll targets \<open>onScroll\<close> is registered on, the \<open>ResizeObserver\<close> objects
  created so far with the node each one observes (\<open>resizeObserver\<close> is the index of the
  newest), the inline style and the armed \<open>ontransitionend\<close> handler of each node, the
  animation-frame callbacks of the frame being run and of the next one, and whether the
  watcher holds a cleanup registered by \<open>onCleanup\<close>.
\<close>

record state =
  isVisible :: bool
  isListeningScroll :: bool
  captureEnterDelta :: bool
  captureLeaveDelta :: bool
  prevTop :: jsnum
  skipInitial :: bool
  resizeObserver :: "nat option"
  observers :: "node option list"
  scrollListeners :: "scroll_target set"
  inlineStyle :: "node \<Rightarrow> string \<rightharpoonup> string"
  ontransitionend :: "node \<Rightarrow> bool"
  rafCurrent :: "raf_task list"
  rafNext :: "raf_task list"
  cleanupRegistered :: bool

definition init_state :: state where
  "init_state = \<lparr> isVisible = True, isListeningScroll = False,
     captureEnterDelta = True, captureLeaveDelta = True, prevTop = Fin 0,
     skipInitial = True, resizeObserver = None, observers = [],
     scrollListeners = {}, inlineStyle = (\<lambda>_. Map.empty), ontransitionend = (\<lambda>_. False),
     rafCurrent = [], rafNext = [], cleanupRegistered = False \<rparr>"

section \<open>Utils\<close>

definition getRoot :: "env \<Rightarrow> node option" where
  "getRoot e =
     (if \<not> hasWindow e then None
      else case rootRef e of Some r \<Rightarrow> Some r | None \<Rightarrow> Some DocumentElement)"

definition getScrollTop :: "env \<Rightarrow> jsnum" where
  "getScrollTop e = (case getRoot e of None \<Rightarrow> Fin 0 | Some r \<Rightarrow> scrollTop e r)"

definition isFixed :: "env \<Rightarrow> bool" where
  "isFixed e =
     (case targetRef e of
        None \<Rightarrow> False
      | Some el \<Rightarrow> (position e el = ''fixed'' \<or> position e el = ''sticky'')
                   \<and> display e el \<noteq> ''none'')"

definition getHeaderHeight :: "env \<Rightarrow> jsnum" where
  "getHeaderHeight e =
     (case targetRef e of
        None \<Rightarrow> Fin 0
      | Some el \<Rightarrow> js_add (scrollHeight e el) (js_add (marginTop e el) (marginBottom e el)))"

text \<open>
  The inline style of a node maps the names of CSS properties to values. A key of a
  style object is an attribute of \<open>el.style\<close>: a camel-case key names the property
  with \<open>-x\<close> for each capital \<open>X\<close>, and a key without capitals names itself.
  \<open>removeProperty\<close> takes the name of a property and compares it in lower case, so a
  camel-case key names nothing to it. Every key is taken to name a supported property and
  every value to be valid for it (the browser drops the others); shorthands, \<open>cssFloat\<close>
  and the \<open>webkit\<close> attributes, which are named otherwise, are not modelled.
\<close>

definition capitals :: "(char \<times> char) list" where
  "capitals = zip ''ABCDEFGHIJKLMNOPQRSTUVWXYZ'' ''abcdefghijklmnopqrstuvwxyz''"

definition cssProperty :: "string \<Rightarrow> string" where
  "cssProperty attribute =
     concat (map (\<lambda>c. case map_of capitals c of Some l \<Rightarrow> [CHR ''-'', l] | None \<Rightarrow> [c]) attribute)"

definition asciiLower :: "string \<Rightarrow> string" where
  "asciiLower name = map (\<lambda>c. case map_of capitals c of Some l \<Rightarrow> l | None \<Rightarrow> c) name"

text \<open>\<open>Object.assign(el.style, styles)\<close>: each property is written in turn.\<close>

definition assign :: "(string \<rightharpoonup> string) \<Rightarrow> styles \<Rightarrow> (string \<rightharpoonup> string)" where
  "assign st kvs = foldl (\<lambda>m kv. m(cssProperty (fst kv) \<mapsto> snd kv)) st kvs"

definition setStyles :: "env \<Rightarrow> styles \<Rightarrow> state \<Rightarrow> state" where
  "setStyles e kvs s =
     (case targetRef e of
        None \<Rightarrow> s
      | Some el \<Rightarrow> s\<lparr>inlineStyle := (inlineStyle s)(el := assign (inlineStyle s el) kvs)\<rparr>)"

text \<open>
  The spread \<open>{...a, ...b}\<close> is the list \<open>a @ b\<close>: written in turn, a key of \<open>b\<close> wins, and
  its keys are those of both.
\<close>

definition removeStyles :: "params \<Rightarrow> env \<Rightarrow> state \<Rightarrow> state" where
  "removeStyles P e s =
     (case targetRef e of
        None \<Rightarrow> s
      | Some el \<Rightarrow>
          let properties = map fst (enterStyles P @ leaveStyles P) @ [''visibility'']
          in s\<lparr>inlineStyle :=
                 (inlineStyle s)(el := foldl (\<lambda>m prop. m(asciiLower prop := None)) (inlineStyle s el) properties)\<rparr>)"

definition onInstantScrollRestoration :: "state \<Rightarrow> state" where
  "onInstantScrollRestoration s = s\<lparr>rafNext := rafNext s @ [Restoration]\<rparr>"

text \<open>The callback that \<open>onInstantScrollRestoration\<close> hands to \<open>requestAnimationFrame\<close>.\<close>

definition restorationCheck :: "params \<Rightarrow> env \<Rightarrow> state \<Rightarrow> state" where
  "restorationCheck P e s =
     (let isBelowHeader = js_gt (getScrollTop e) (times_1_2 P (getHeaderHeight e))
      in if isBelowHeader
         then setStyles e (leaveStyles P @ VISIBILITY_HIDDEN) (s\<lparr>isVisible := False\<rparr>)
         else s)"

definition onVisible :: "params \<Rightarrow> env \<Rightarrow> state \<Rightarrow> state" where
  "onVisible P e s = setStyles e (enterStyles P @ VISIBILITY_VISIBLE) s"

definition onHidden :: "params \<Rightarrow> env \<Rightarrow> state \<Rightarrow> state" where
  "onHidden P e s =
     (let s1 = setStyles e (leaveStyles P) s
      in case targetRef e of
           None \<Rightarrow> s1
         | Some el \<Rightarrow> s1\<lparr>ontransitionend := (ontransitionend s1)(el := True)\<rparr>)"

text \<open>
  A \<open>transitionend\<close> event reaching the node \<open>el\<close>: the handler that \<open>onHidden\<close> stored runs
  if it is still there. It writes through \<open>setStyles\<close>, that is to the target of that
  moment, and clears the handler of the node it was stored on.
\<close>

definition transitionend :: "env \<Rightarrow> node \<Rightarrow> state \<Rightarrow> state" where
  "transitionend e el s =
     (if ontransitionend s el
      then (let s1 = (if \<not> isVisible s then setStyles e VISIBILITY_HIDDEN s else s)
            in s1\<lparr>ontransitionend := (ontransitionend s1)(el := False)\<rparr>)
      else s)"

section \<open>Event handlers\<close>

text \<open>The two callbacks that the scroll handler passes to \<open>captureDelta\<close>.\<close>

fun onCaptured :: "params \<Rightarrow> direction \<Rightarrow> jsnum \<Rightarrow> state \<Rightarrow> state" where
  "onCaptured P Enter v s =
     (let s1 = (if js_ge v (enterDelta P) then s\<lparr>isVisible := True\<rparr> else s)
      in s1\<lparr>captureEnterDelta := True\<rparr>)"
| "onCaptured P Leave v s =
     (let s1 = (if js_ge v (leaveDelta P) then s\<lparr>isVisible := False\<rparr> else s)
      in s1\<lparr>captureLeaveDelta := True\<rparr>)"

definition captureDelta :: "direction \<Rightarrow> env \<Rightarrow> state \<Rightarrow> state" where
  "captureDelta d e s = s\<lparr>rafNext := rafNext s @ [RafDelta d 0 (now e) (getScrollTop e)]\<rparr>"

text \<open>
  One call of \<open>rafDelta\<close>, on the variables of its closure: it reports the speed, or counts
  the frame and asks for the next one. \<open>cancelAnimationFrame(rafId)\<close> names the request of
  \<open>captureDelta\<close>, which has run by then, and does nothing.
\<close>

datatype tick = Captured jsnum | Again nat

definition rafDelta_tick :: "nat \<Rightarrow> jsnum \<Rightarrow> jsnum \<Rightarrow> nat \<Rightarrow> env \<Rightarrow> tick" where
  "rafDelta_tick frames startMs startY frameCount e =
     (let nextY = getScrollTop e
      in if frameCount = frames
         then Captured (js_div (js_abs (js_sub startY nextY)) (js_sub (now e) startMs))
         else Again (frameCount + 1))"

definition rafDelta :: "params \<Rightarrow> env \<Rightarrow> direction \<Rightarrow> nat \<Rightarrow> jsnum \<Rightarrow> jsnum \<Rightarrow> state \<Rightarrow> state" where
  "rafDelta P e d frameCount startMs startY s =
     (case rafDelta_tick (CAPTURE_DELTA_FRAME_COUNT P) startMs startY frameCount e of
        Captured v \<Rightarrow> onCaptured P d v s
      | Again n \<Rightarrow> s\<lparr>rafNext := rafNext s @ [RafDelta d n startMs startY]\<rparr>)"

text \<open>The handler returned by \<open>createScrollHandler\<close>.\<close>

definition onScroll :: "params \<Rightarrow> env \<Rightarrow> state \<Rightarrow> state" where
  "onScroll P e s =
     (let isTopReached = js_le (getScrollTop e) (getHeaderHeight e);
          isScrollingUp = js_lt (getScrollTop e) (prevTop s);
          isScrollingDown = js_gt (getScrollTop e) (prevTop s);
          s1 = (if isTopReached then s\<lparr>isVisible := True\<rparr>
                else if \<not> js_eq (prevTop s) (Fin 0)
                then (if isScrollingUp \<and> captureEnterDelta s
                      then captureDelta Enter e (s\<lparr>captureEnterDelta := False\<rparr>)
                      else if isScrollingDown \<and> captureLeaveDelta s
                      then captureDelta Leave e (s\<lparr>captureLeaveDelta := False\<rparr>)
                      else s)
                else s)
      in s1\<lparr>prevTop := getScrollTop e\<rparr>)"

definition toggleScollListener :: "bool \<Rightarrow> env \<Rightarrow> state \<Rightarrow> state" where
  "toggleScollListener isRemove e s =
     (case getRoot e of
        None \<Rightarrow> s
      | Some r \<Rightarrow>
          let scrollRoot = (if r = DocumentElement then Window else Node r)
          in s\<lparr>scrollListeners :=
                 (if isRemove then scrollListeners s - {scrollRoot}
                  else insert scrollRoot (scrollListeners s)),
               isListeningScroll := \<not> isRemove\<rparr>)"

definition toggleFunctionalities :: "params \<Rightarrow> env \<Rightarrow> state \<Rightarrow> state" where
  "toggleFunctionalities P e s =
     (let isValid = isFixed e
      in if isListeningScroll s
         then (if \<not> isValid then toggleScollListener True e (removeStyles P e s) else s)
         else (if isValid then toggleScollListener False e s else s))"

definition addResizeObserver :: "env \<Rightarrow> state \<Rightarrow> state" where
  "addResizeObserver e s =
     s\<lparr>resizeObserver := Some (length (observers s)),
       observers := observers s @ [getRoot e]\<rparr>"

text \<open>The callback given to \<open>new ResizeObserver\<close>.\<close>

definition onResize :: "params \<Rightarrow> env \<Rightarrow> state \<Rightarrow> state" where
  "onResize P e s =
     (if skipInitial s then s\<lparr>skipInitial := False\<rparr> else toggleFunctionalities P e s)"

definition resetListeners :: "env \<Rightarrow> state \<Rightarrow> state" where
  "resetListeners e s =
     (let s1 = toggleScollListener True e s;
          s2 = (case resizeObserver s1 of
                  None \<Rightarrow> s1
                | Some i \<Rightarrow> s1\<lparr>observers := (observers s1)[i := None]\<rparr>)
      in s2\<lparr>isVisible := True\<rparr>)"

section \<open>Watchers and lifecycle\<close>

text \<open>
  The callback of the first watcher. Its source is a getter that returns the array of
  the target and the root, so the parameter \<open>_target\<close> is that array and the test
  \<open>if (_target)\<close> always succeeds.
\<close>

definition watchCallback :: "env \<Rightarrow> state \<Rightarrow> state" where
  "watchCallback e s =
     (let s1 = s\<lparr>cleanupRegistered := True\<rparr>;
          s2 = addResizeObserver e s1
      in if \<not> isFixed e then s2
         else toggleScollListener False e (onInstantScrollRestoration s2))"

text \<open>
  One run of that watcher, at mount and at each change of the target or of the root: the
  cleanup registered by the run before, then the callback, in one turn.
\<close>

definition runWatcher :: "env \<Rightarrow> state \<Rightarrow> state" where
  "runWatcher e s =
     watchCallback e
       (if cleanupRegistered s then resetListeners e (s\<lparr>cleanupRegistered := False\<rparr>) else s)"

text \<open>The callback of the watcher of \<open>isVisible\<close>, called with the flag's value.\<close>

definition onVisibilityChange :: "params \<Rightarrow> env \<Rightarrow> state \<Rightarrow> state" where
  "onVisibilityChange P e s =
     (if \<not> isListeningScroll s then s
      else if isVisible s then onVisible P e s else onHidden P e s)"


text \<open>
  Unmounting: the \<open>onBeforeUnmount\<close> hook, then the watcher is stopped, which runs its
  cleanup.
\<close>

definition unmount :: "env \<Rightarrow> state \<Rightarrow> state" where
  "unmount e s =
     (let s1 = resetListeners e s
      in if cleanupRegistered s1 then resetListeners e (s1\<lparr>cleanupRegistered := False\<rparr>) else s1)"

section \<open>The event loop\<close>

text \<open>
  One turn of the event loop. A scroll event runs the handler if it is registered on the
  event's target; a resize notification runs the callback of an observer that observes
  something; \<open>Frame\<close> starts an animation frame (the callbacks requested so far become
  the frame's) and \<open>Raf\<close> runs the frame's next callback. The runs of the three watchers
  may come at any moment, which covers every order the framework can choose.
\<close>

datatype event =
    Scroll scroll_target env
  | Frame
  | Raf env
  | Resize nat env
  | TransitionEnd node env
  | TargetOrRootChanged env
  | VisibilityChanged env
  | WatchedChanged env
  | Unmount env

fun runTask :: "params \<Rightarrow> env \<Rightarrow> raf_task \<Rightarrow> state \<Rightarrow> state" where
  "runTask P e Restoration s = restorationCheck P e s"
| "runTask P e (RafDelta d frameCount startMs startY) s = rafDelta P e d frameCount startMs startY s"

fun step :: "params \<Rightarrow> event \<Rightarrow> state \<Rightarrow> state" where
  "step P (Scroll t e) s = (if t \<in> scrollListeners s then onScroll P e s else s)"
| "step P Frame s = s\<lparr>rafCurrent := rafCurrent s @ rafNext s, rafNext := []\<rparr>"
| "step P (Raf e) s =
     (case rafCurrent s of
        [] \<Rightarrow> s
      | t # ts \<Rightarrow> runTask P e t (s\<lparr>rafCurrent := ts\<rparr>))"
| "step P (Resize i e) s =
     (if i < length (observers s) \<and> observers s ! i \<noteq> None then onResize P e s else s)"
| "step P (TransitionEnd el e) s = transitionend e el s"
| "step P (TargetOrRootChanged e) s = runWatcher e s"
| "step P (VisibilityChanged e) s = onVisibilityChange P e s"
| "step P (WatchedChanged e) s = toggleFunctionalities P e s"
| "step P (Unmount e) s = unmount e s"

inductive reachable :: "params \<Rightarrow> state \<Rightarrow> bool" for P :: params where
  reachable_init: "reachable P init_state"
| reachable_step: "reachable P s \<Longrightarrow> reachable P (step P ev s)"

section \<open>Observations used by the properties\<close>

text \<open>The re-entrancy guard of a direction, and the samples of a direction in flight.\<close>

fun guard :: "direction \<Rightarrow> state \<Rightarrow> bool" where
  "guard Enter s = captureEnterDelta s"
| "guard Leave s = captureLeaveDelta s"

fun isSampleOf :: "direction \<Rightarrow> raf_task \<Rightarrow> bool" where
  "isSampleOf d Restoration = False"
| "isSampleOf d (RafDelta d' frameCount startMs startY) = (d = d')"

definition inFlight :: "direction \<Rightarrow> state \<Rightarrow> nat" where
  "inFlight d s = length (filter (isSampleOf d) (rafCurrent s @ rafNext s))"

text \<open>How the scroll handler classifies an event for a direction.\<close>

fun moving :: "direction \<Rightarrow> env \<Rightarrow> state \<Rightarrow> bool" where
  "moving Enter e s = js_lt (getScrollTop e) (prevTop s)"
| "moving Leave e s = js_gt (getScrollTop e) (prevTop s)"

text \<open>
  One \<open>captureDelta\<close> run followed through the animation frames \<open>es\<close> that come after it:
  the values its callback was called with, and whether \<open>rafDelta\<close> is still requested
  for a later frame.
\<close>

fun sampleRun :: "nat \<Rightarrow> jsnum \<Rightarrow> jsnum \<Rightarrow> nat \<Rightarrow> env list \<Rightarrow> jsnum list \<times> bool" where
  "sampleRun frames startMs startY frameCount [] = ([], True)"
| "sampleRun frames startMs startY frameCount (e # es) =
     (case rafDelta_tick frames startMs startY frameCount e of
        Captured v \<Rightarrow> ([v], False)
      | Again n \<Rightarrow> sampleRun frames startMs startY n es)"

text \<open>
  What holds of the samples in every reachable state: a direction has a sample in
  flight exactly when its guard is down, and never more than one.
\<close>

definition sampling_inv :: "state \<Rightarrow> bool" where
  "sampling_inv s =
     (inFlight Enter s = (if captureEnterDelta s then 0 else 1)
      \<and> inFlight Leave s = (if captureLeaveDelta s then 0 else 1))"


section \<open>A page and a configuration to run the model on\<close>

text \<open>
  A fixed header of 80 pixels in the document, target \<open>Element 1\<close>, the page scrolled to
  \<open>y\<close> at time \<open>t\<close>; the same page scrolling inside the root \<open>r\<close>; and a configuration
  with thresholds 0.5 and 0.15 pixels per millisecond over two frames. Its product is
  the exact one: at the height 80 of this header it is the product of doubles, 96.
\<close>

definition page :: "real \<Rightarrow> real \<Rightarrow> env" where
  "page y t = \<lparr> hasWindow = True, rootRef = None, targetRef = Some (Element 1),
     scrollTop = (\<lambda>_. Fin y), scrollHeight = (\<lambda>_. Fin 80),
     marginTop = (\<lambda>_. Fin 0), marginBottom = (\<lambda>_. Fin 0),
     position = (\<lambda>_. ''fixed''), display = (\<lambda>_. ''block''), now = Fin t \<rparr>"

definition pageIn :: "node \<Rightarrow> real \<Rightarrow> real \<Rightarrow> env" where
  "pageIn r y t = (page y t)\<lparr>rootRef := Some r\<rparr>"

definition config :: params where
  "config = \<lparr> enterStyles = [(''transform'', ''translateY(0px)'')],
     leaveStyles = [(''transform'', ''translateY(-100%)'')],
     enterDelta = Fin (1 / 2), leaveDelta = Fin (15 / 100),
     CAPTURE_DELTA_FRAME_COUNT = 2,
     times_1_2 = (\<lambda>x. js_mul x (Fin (12 / 10))) \<rparr>"

text \<open>
  The header is mounted at the top of the page; then the page is scrolled to 500 and on to
  600, which starts a "leave" sample.
\<close>

definition mounted :: state where
  "mounted = step config (TargetOrRootChanged (page 0 0)) init_state"

definition scrolledDown :: state where
  "scrolledDown =
     step config (Scroll Window (page 600 20)) (step config (Scroll Window (page 500 10)) mounted)"

text \<open>
  The header is mounted while the option \<open>root\<close> is the element 2; then \<open>root\<close> becomes the
  element 3.
\<close>

definition rootSwapped :: state where
  "rootSwapped =
     step config (TargetOrRootChanged (pageIn (Element 3) 0 0))
       (step config (TargetOrRootChanged (pageIn (Element 2) 0 0)) init_state)"

section \<open>Comparisons\<close>

lemma js_gt_not_le: "js_gt a b \<Longrightarrow> \<not> js_le a b"
  by (cases a; cases b) (auto simp: js_gt_def js_le_def)

lemma js_lt_asym: "js_lt a b \<Longrightarrow> \<not> js_lt b a"
  by (cases a; cases b) auto

lemma js_lt_not_gt: "js_lt a b \<Longrightarrow> \<not> js_gt a b"
  by (simp add: js_gt_def js_lt_asym)

lemma js_ge_PInf: "b \<noteq> NaN \<Longrightarrow> js_ge PInf b"
  by (cases b) (auto simp: js_ge_def js_le_def)

lemma js_ge_NaN: "\<not> js_ge NaN b"
  by (cases b) (auto simp: js_ge_def js_le_def)

section \<open>What each function leaves alone\<close>

lemma toggleScollListener_frame [simp]:
  "rafNext (toggleScollListener b e s) = rafNext s"
  "rafCurrent (toggleScollListener b e s) = rafCurrent s"
  "inlineStyle (toggleScollListener b e s) = inlineStyle s"
  "ontransitionend (toggleScollListener b e s) = ontransitionend s"
  "prevTop (toggleScollListener b e s) = prevTop s"
  "captureEnterDelta (toggleScollListener b e s) = captureEnterDelta s"
  "captureLeaveDelta (toggleScollListener b e s) = captureLeaveDelta s"
  "isVisible (toggleScollListener b e s) = isVisible s"
  "observers (toggleScollListener b e s) = observers s"
  "resizeObserver (toggleScollListener b e s) = resizeObserver s"
  "cleanupRegistered (toggleScollListener b e s) = cleanupRegistered s"
  "skipInitial (toggleScollListener b e s) = skipInitial s"
  by (simp_all add: toggleScollListener_def Let_def split: option.splits)

lemma resetListeners_frame [simp]:
  "rafNext (resetListeners e s) = rafNext s"
  "rafCurrent (resetListeners e s) = rafCurrent s"
  "inlineStyle (resetListeners e s) = inlineStyle s"
  "ontransitionend (resetListeners e s) = ontransitionend s"
  "prevTop (resetListeners e s) = prevTop s"
  "captureEnterDelta (resetListeners e s) = captureEnterDelta s"
  "captureLeaveDelta (resetListeners e s) = captureLeaveDelta s"
  "cleanupRegistered (resetListeners e s) = cleanupRegistered s"
  "skipInitial (resetListeners e s) = skipInitial s"
  "resizeObserver (resetListeners e s) = resizeObserver s"
  "isVisible (resetListeners e s)"
  by (simp_all add: resetListeners_def Let_def split: option.splits)


lemma watchCallback_frame [simp]:
  "rafCurrent (watchCallback e s) = rafCurrent s"
  "inlineStyle (watchCallback e s) = inlineStyle s"
  "ontransitionend (watchCallback e s) = ontransitionend s"
  "prevTop (watchCallback e s) = prevTop s"
  "captureEnterDelta (watchCallback e s) = captureEnterDelta s"
  "captureLeaveDelta (watchCallback e s) = captureLeaveDelta s"
  "isVisible (watchCallback e s) = isVisible s"
  "rafNext (watchCallback e s) = (if isFixed e then rafNext s @ [Restoration] else rafNext s)"
  "cleanupRegistered (watchCallback e s)"
  "resizeObserver (watchCallback e s) = Some (length (observers s))"
  "observers (watchCallback e s) = observers s @ [getRoot e]"
  by (simp_all add: watchCallback_def addResizeObserver_def onInstantScrollRestoration_def Let_def)

lemma runWatcher_frame:
  "rafCurrent (runWatcher e s) = rafCurrent s"
  "inlineStyle (runWatcher e s) = inlineStyle s"
  "ontransitionend (runWatcher e s) = ontransitionend s"
  "prevTop (runWatcher e s) = prevTop s"
  "captureEnterDelta (runWatcher e s) = captureEnterDelta s"
  "captureLeaveDelta (runWatcher e s) = captureLeaveDelta s"
  "rafNext (runWatcher e s) = (if isFixed e then rafNext s @ [Restoration] else rafNext s)"
  by (simp_all add: runWatcher_def)

lemma setStyles_frame [simp]:
  "isVisible (setStyles e kvs s) = isVisible s"
  "ontransitionend (setStyles e kvs s) = ontransitionend s"
  "rafNext (setStyles e kvs s) = rafNext s"
  "rafCurrent (setStyles e kvs s) = rafCurrent s"
  "captureEnterDelta (setStyles e kvs s) = captureEnterDelta s"
  "captureLeaveDelta (setStyles e kvs s) = captureLeaveDelta s"
  "observers (setStyles e kvs s) = observers s"
  "resizeObserver (setStyles e kvs s) = resizeObserver s"
  "cleanupRegistered (setStyles e kvs s) = cleanupRegistered s"
  by (simp_all add: setStyles_def split: option.splits)

lemma removeStyles_frame [simp]:
  "rafNext (removeStyles P e s) = rafNext s"
  "rafCurrent (removeStyles P e s) = rafCurrent s"
  "captureEnterDelta (removeStyles P e s) = captureEnterDelta s"
  "captureLeaveDelta (removeStyles P e s) = captureLeaveDelta s"
  "observers (removeStyles P e s) = observers s"
  "resizeObserver (removeStyles P e s) = resizeObserver s"
  "cleanupRegistered (removeStyles P e s) = cleanupRegistered s"
  by (simp_all add: removeStyles_def Let_def split: option.splits)

lemma toggleFunctionalities_frame [simp]:
  "rafNext (toggleFunctionalities P e s) = rafNext s"
  "rafCurrent (toggleFunctionalities P e s) = rafCurrent s"
  "captureEnterDelta (toggleFunctionalities P e s) = captureEnterDelta s"
  "captureLeaveDelta (toggleFunctionalities P e s) = captureLeaveDelta s"
  "observers (toggleFunctionalities P e s) = observers s"
  "resizeObserver (toggleFunctionalities P e s) = resizeObserver s"
  "cleanupRegistered (toggleFunctionalities P e s) = cleanupRegistered s"
  by (simp_all add: toggleFunctionalities_def Let_def)

lemma onResize_frame [simp]:
  "rafNext (onResize P e s) = rafNext s"
  "rafCurrent (onResize P e s) = rafCurrent s"
  "captureEnterDelta (onResize P e s) = captureEnterDelta s"
  "captureLeaveDelta (onResize P e s) = captureLeaveDelta s"
  "observers (onResize P e s) = observers s"
  "resizeObserver (onResize P e s) = resizeObserver s"
  "cleanupRegistered (onResize P e s) = cleanupRegistered s"
  by (simp_all add: onResize_def)

lemma transitionend_frame [simp]:
  "rafNext (transitionend e el s) = rafNext s"
  "rafCurrent (transitionend e el s) = rafCurrent s"
  "captureEnterDelta (transitionend e el s) = captureEnterDelta s"
  "captureLeaveDelta (transitionend e el s) = captureLeaveDelta s"
  "observers (transitionend e el s) = observers s"
  "resizeObserver (transitionend e el s) = resizeObserver s"
  "cleanupRegistered (transitionend e el s) = cleanupRegistered s"
  by (simp_all add: transitionend_def Let_def)

lemma onVisibilityChange_frame [simp]:
  "rafNext (onVisibilityChange P e s) = rafNext s"
  "rafCurrent (onVisibilityChange P e s) = rafCurrent s"
  "captureEnterDelta (onVisibilityChange P e s) = captureEnterDelta s"
  "captureLeaveDelta (onVisibilityChange P e s) = captureLeaveDelta s"
  "observers (onVisibilityChange P e s) = observers s"
  "resizeObserver (onVisibilityChange P e s) = resizeObserver s"
  "cleanupRegistered (onVisibilityChange P e s) = cleanupRegistered s"
  by (simp_all add: onVisibilityChange_def onVisible_def onHidden_def Let_def split: option.splits)

lemma unmount_frame [simp]:
  "rafNext (unmount e s) = rafNext s"
  "rafCurrent (unmount e s) = rafCurrent s"
  "captureEnterDelta (unmount e s) = captureEnterDelta s"
  "captureLeaveDelta (unmount e s) = captureLeaveDelta s"
  by (simp_all add: unmount_def Let_def)

lemma restorationCheck_frame [simp]:
  "rafNext (restorationCheck P e s) = rafNext s"
  "rafCurrent (restorationCheck P e s) = rafCurrent s"
  "captureEnterDelta (restorationCheck P e s) = captureEnterDelta s"
  "captureLeaveDelta (restorationCheck P e s) = captureLeaveDelta s"
  "observers (restorationCheck P e s) = observers s"
  "resizeObserver (restorationCheck P e s) = resizeObserver s"
  "cleanupRegistered (restorationCheck P e s) = cleanupRegistered s"
  by (simp_all add: restorationCheck_def Let_def)

lemma onCaptured_frame [simp]:
  "rafNext (onCaptured P d v s) = rafNext s"
  "rafCurrent (onCaptured P d v s) = rafCurrent s"
  "observers (onCaptured P d v s) = observers s"
  "resizeObserver (onCaptured P d v s) = resizeObserver s"
  "cleanupRegistered (onCaptured P d v s) = cleanupRegistered s"
  by (cases d; simp add: Let_def)+

lemma rafDelta_frame [simp]:
  "observers (rafDelta P e d n ms y s) = observers s"
  "resizeObserver (rafDelta P e d n ms y s) = resizeObserver s"
  "cleanupRegistered (rafDelta P e d n ms y s) = cleanupRegistered s"
  by (simp_all add: rafDelta_def rafDelta_tick_def Let_def)

lemma onScroll_frame [simp]:
  "observers (onScroll P e s) = observers s"
  "resizeObserver (onScroll P e s) = resizeObserver s"
  "cleanupRegistered (onScroll P e s) = cleanupRegistered s"
  "rafCurrent (onScroll P e s) = rafCurrent s"
  by (simp_all add: onScroll_def captureDelta_def Let_def)



lemma cssProperty_plain [simp]:
  "cssProperty ''visibility'' = ''visibility''"
  "cssProperty ''transform'' = ''transform''"
  by (simp_all add: cssProperty_def capitals_def)



section \<open>The samples in flight\<close>

lemma sampling_inv_keep:
  "sampling_inv s \<Longrightarrow> inFlight Enter s' = inFlight Enter s \<Longrightarrow> inFlight Leave s' = inFlight Leave s
   \<Longrightarrow> captureEnterDelta s' = captureEnterDelta s \<Longrightarrow> captureLeaveDelta s' = captureLeaveDelta s
   \<Longrightarrow> sampling_inv s'"
  by (simp add: sampling_inv_def)

lemma inFlight_keep:
  "rafCurrent s' = rafCurrent s \<Longrightarrow> rafNext s' = rafNext s \<Longrightarrow> inFlight d s' = inFlight d s"
  by (simp add: inFlight_def)

lemma sampling_inv_onScroll: "sampling_inv s \<Longrightarrow> sampling_inv (onScroll P e s)"
  by (auto simp: sampling_inv_def inFlight_def onScroll_def captureDelta_def Let_def split: if_splits)

lemma sampling_inv_rafDelta:
  assumes "sampling_inv s" and "rafCurrent s = RafDelta d n ms y # ts"
  shows "sampling_inv (rafDelta P e d n ms y (s\<lparr>rafCurrent := ts\<rparr>))"
  using assms
  by (cases d) (auto simp: sampling_inv_def inFlight_def rafDelta_def rafDelta_tick_def Let_def
      split: if_splits)

lemma sampling_inv_step: "sampling_inv s \<Longrightarrow> sampling_inv (step P ev s)"
proof (cases ev)
  case (Scroll t e)
  assume "sampling_inv s"
  then show ?thesis using Scroll by (simp add: sampling_inv_onScroll)
next
  case Frame
  assume "sampling_inv s"
  then show ?thesis using Frame by (simp add: sampling_inv_def inFlight_def)
next
  case (Raf e)
  assume inv: "sampling_inv s"
  show ?thesis
  proof (cases "rafCurrent s")
    case Nil
    then show ?thesis using inv Raf by simp
  next
    case (Cons t ts)
    show ?thesis
    proof (cases t)
      case Restoration
      have "sampling_inv (restorationCheck P e (s\<lparr>rafCurrent := ts\<rparr>))"
        using Cons Restoration by (intro sampling_inv_keep[OF inv]) (simp_all add: inFlight_def)
      then show ?thesis using Raf Cons Restoration by simp
    next
      case (RafDelta d n ms y)
      then show ?thesis using sampling_inv_rafDelta[OF inv, of d n ms y ts P e] Raf Cons
        by simp
    qed
  qed
next
  case (Resize i e)
  assume inv: "sampling_inv s"
  have "sampling_inv (onResize P e s)"
    by (intro sampling_inv_keep[OF inv] inFlight_keep) simp_all
  then show ?thesis using inv Resize by simp
next
  case (TransitionEnd el e)
  assume inv: "sampling_inv s"
  have "sampling_inv (transitionend e el s)"
    by (intro sampling_inv_keep[OF inv] inFlight_keep) simp_all
  then show ?thesis using TransitionEnd by simp
next
  case (TargetOrRootChanged e)
  assume inv: "sampling_inv s"
  have "sampling_inv (runWatcher e s)"
    by (intro sampling_inv_keep[OF inv]) (simp_all add: inFlight_def runWatcher_frame)
  then show ?thesis using TargetOrRootChanged by simp
next
  case (VisibilityChanged e)
  assume inv: "sampling_inv s"
  have "sampling_inv (onVisibilityChange P e s)"
    by (intro sampling_inv_keep[OF inv] inFlight_keep) simp_all
  then show ?thesis using VisibilityChanged by simp
next
  case (WatchedChanged e)
  assume inv: "sampling_inv s"
  have "sampling_inv (toggleFunctionalities P e s)"
    by (intro sampling_inv_keep[OF inv] inFlight_keep) simp_all
  then show ?thesis using WatchedChanged by simp
next
  case (Unmount e)
  assume inv: "sampling_inv s"
  have "sampling_inv (unmount e s)"
    by (intro sampling_inv_keep[OF inv] inFlight_keep) simp_all
  then show ?thesis using Unmount by simp
qed

lemma reachable_sampling_inv: "reachable P s \<Longrightarrow> sampling_inv s"
proof (induction rule: reachable.induct)
  case reachable_init
  show ?case by (simp add: sampling_inv_def inFlight_def init_state_def)
next
  case (reachable_step s ev)
  then show ?case by (simp add: sampling_inv_step)
qed

section \<open>The resize observers\<close>









section \<open>One sample, frame by frame\<close>

lemma sampleRun_short:
  "frameCount \<le> frames \<Longrightarrow> length es \<le> frames - frameCount \<Longrightarrow>
   sampleRun frames startMs startY frameCount es = ([], True)"
proof (induction es arbitrary: frameCount)
  case Nil
  then show ?case by simp
next
  case (Cons e es)
  then show ?case by (simp add: rafDelta_tick_def)
qed

lemma sampleRun_long:
  "frameCount \<le> frames \<Longrightarrow> frames - frameCount < length es \<Longrightarrow>
   sampleRun frames startMs startY frameCount es =
     ([js_div (js_abs (js_sub startY (getScrollTop (es ! (frames - frameCount)))))
              (js_sub (now (es ! (frames - frameCount))) startMs)], False)"
proof (induction es arbitrary: frameCount)
  case Nil
  then show ?case by simp
next
  case (Cons e es)
  show ?case
  proof (cases "frameCount = frames")
    case True
    then show ?thesis by (simp add: rafDelta_tick_def)
  next
    case False
    with Cons.prems have lt: "frameCount < frames" by simp
    then have le: "Suc frameCount \<le> frames" by simp
    from Cons.prems lt have len: "frames - Suc frameCount < length es" by auto
    from lt have idx: "frames - frameCount = Suc (frames - Suc frameCount)" by simp
    show ?thesis
      using Cons.IH[OF le len] False by (simp add: rafDelta_tick_def idx)
  qed
qed

section \<open>The example runs\<close>

lemmas model_defs = page_def pageIn_def config_def init_state_def getRoot_def getScrollTop_def
  getHeaderHeight_def isFixed_def runWatcher_def watchCallback_def addResizeObserver_def
  onInstantScrollRestoration_def toggleScollListener_def resetListeners_def onScroll_def
  captureDelta_def js_le_def js_gt_def js_ge_def js_sub_def Let_def unmount_def

lemma mounted_eq:
  "mounted = init_state\<lparr>isListeningScroll := True, resizeObserver := Some 0,
     observers := [Some DocumentElement], scrollListeners := {Window},
     rafNext := [Restoration], cleanupRegistered := True\<rparr>"
  by (simp add: mounted_def model_defs)

lemma scrolledDown_eq:
  "scrolledDown = init_state\<lparr>isListeningScroll := True, captureLeaveDelta := False,
     prevTop := Fin 600, resizeObserver := Some 0,
     observers := [Some DocumentElement], scrollListeners := {Window},
     rafNext := [Restoration, RafDelta Leave 0 (Fin 20) (Fin 600)], cleanupRegistered := True\<rparr>"
  by (simp add: scrolledDown_def mounted_eq) (simp add: model_defs)

lemma rootSwapped_eq:
  "rootSwapped = init_state\<lparr>isListeningScroll := True, resizeObserver := Some 1,
     observers := [None, Some (Element 3)], scrollListeners := {Node (Element 2), Node (Element 3)},
     rafNext := [Restoration, Restoration], cleanupRegistered := True\<rparr>"
  by (simp add: rootSwapped_def) (simp add: model_defs insert_commute)

lemma reachable_mounted: "reachable config mounted"
  unfolding mounted_def by (intro reachable.intros)

lemma reachable_scrolledDown: "reachable config scrolledDown"
  unfolding scrolledDown_def by (intro reachable.intros reachable_mounted)

lemma reachable_rootSwapped: "reachable config rootSwapped"
  unfolding rootSwapped_def by (intro reachable.intros)

section \<open>The scroll handler\<close>

text \<open>
  Claim C1. A scroll event that finds the offset at or below the header's height sets
  \<open>isVisible\<close> to true, whatever the state before: the direction and the speed of the
  scroll, \<open>prevTop\<close>, the guards and the samples in flight play no part.
\<close>

theorem onScroll_top_reached_shows: "js_le (getScrollTop e) (getHeaderHeight e) \<Longrightarrow> isVisible (onScroll P e s)"
  by (simp add: onScroll_def)

theorem onScroll_top_reached_shows_witness:
  "js_le (getScrollTop (page 50 30)) (getHeaderHeight (page 50 30))
   \<and> isVisible (onScroll config (page 50 30) (scrolledDown\<lparr>isVisible := False\<rparr>))"
  using onScroll_top_reached_shows[of "page 50 30" config "scrolledDown\<lparr>isVisible := False\<rparr>"]
  by (simp add: page_def getScrollTop_def getHeaderHeight_def getRoot_def js_le_def)

text \<open>
  Claim C5. While \<open>prevTop\<close> is 0, a scroll event beyond the header's height does nothing
  but record the offset: no sample is started and \<open>isVisible\<close> keeps its value. At or
  below the header's height the test on \<open>prevTop\<close> is not reached, and the event sets
  \<open>isVisible\<close> to true and records the offset.
\<close>

theorem onScroll_from_zero:
  "prevTop s = Fin 0 \<Longrightarrow>
    (js_gt (getScrollTop e) (getHeaderHeight e) \<longrightarrow> onScroll P e s = s\<lparr>prevTop := getScrollTop e\<rparr>)
    \<and> (js_le (getScrollTop e') (getHeaderHeight e') \<longrightarrow>
         onScroll P e' s = s\<lparr>isVisible := True, prevTop := getScrollTop e'\<rparr>)"
  by (simp add: onScroll_def js_gt_not_le)

theorem onScroll_from_zero_witness:
  "prevTop (mounted\<lparr>isVisible := False\<rparr>) = Fin 0
   \<and> js_gt (getScrollTop (page 200 10)) (getHeaderHeight (page 200 10))
   \<and> onScroll config (page 200 10) (mounted\<lparr>isVisible := False\<rparr>)
       = mounted\<lparr>isVisible := False, prevTop := Fin 200\<rparr>
   \<and> js_le (getScrollTop (page 50 10)) (getHeaderHeight (page 50 10))
   \<and> onScroll config (page 50 10) (mounted\<lparr>isVisible := False\<rparr>)
       = mounted\<lparr>isVisible := True, prevTop := Fin 50\<rparr>"
  using onScroll_from_zero[of "mounted\<lparr>isVisible := False\<rparr>" "page 200 10" config "page 50 10"]
  by (simp add: mounted_eq init_state_def page_def getScrollTop_def getRoot_def getHeaderHeight_def
      js_gt_def js_le_def)

section \<open>Velocity samples\<close>

text \<open>
  Claim C3. One \<open>captureDelta\<close> run calls its callback exactly once. \<open>rafDelta\<close> starts
  with \<open>frameCount = 0\<close> and counts one frame per call, so the call in which \<open>frameCount\<close>
  equals \<open>CAPTURE_DELTA_FRAME_COUNT\<close> is the one of the frame \<open>es ! CAPTURE_DELTA_FRAME_COUNT\<close>
  among the frames \<open>es\<close> after the start. With that frame reached, the callback has been
  called once, with \<open>Math.abs(startY - nextY)\<close> over the milliseconds since the start, and
  \<open>rafDelta\<close> is requested no more; before it, the callback has not been called and
  \<open>rafDelta\<close> is requested again. The last four parts say the same of one call of
  \<open>rafDelta\<close> in the state of the composable.
\<close>

theorem sampler_reports_once:
  "(CAPTURE_DELTA_FRAME_COUNT P < length es \<longrightarrow>
      sampleRun (CAPTURE_DELTA_FRAME_COUNT P) (now e) (getScrollTop e) 0 es =
        ([js_div (js_abs (js_sub (getScrollTop e) (getScrollTop (es ! CAPTURE_DELTA_FRAME_COUNT P))))
                 (js_sub (now (es ! CAPTURE_DELTA_FRAME_COUNT P)) (now e))], False))
   \<and> (length es' \<le> CAPTURE_DELTA_FRAME_COUNT P \<longrightarrow>
        sampleRun (CAPTURE_DELTA_FRAME_COUNT P) (now e) (getScrollTop e) 0 es' = ([], True))
   \<and> rafNext (captureDelta d e s) = rafNext s @ [RafDelta d 0 (now e) (getScrollTop e)]
   \<and> (frameCount \<noteq> CAPTURE_DELTA_FRAME_COUNT P \<longrightarrow>
        rafDelta P e' d frameCount startMs startY s
          = s\<lparr>rafNext := rafNext s @ [RafDelta d (frameCount + 1) startMs startY]\<rparr>)
   \<and> rafDelta P e' d (CAPTURE_DELTA_FRAME_COUNT P) startMs startY s
        = onCaptured P d (js_div (js_abs (js_sub startY (getScrollTop e'))) (js_sub (now e') startMs)) s
   \<and> rafNext (rafDelta P e' d (CAPTURE_DELTA_FRAME_COUNT P) startMs startY s) = rafNext s"
  using sampleRun_long[of 0 "CAPTURE_DELTA_FRAME_COUNT P" es "now e" "getScrollTop e"]
        sampleRun_short[of 0 "CAPTURE_DELTA_FRAME_COUNT P" es' "now e" "getScrollTop e"]
  by (cases d) (simp_all add: captureDelta_def rafDelta_def rafDelta_tick_def Let_def)

theorem sampler_reports_once_witness:
  "CAPTURE_DELTA_FRAME_COUNT config < length [page 610 16, page 650 32, page 700 48]
   \<and> sampleRun (CAPTURE_DELTA_FRAME_COUNT config) (now (page 600 0)) (getScrollTop (page 600 0)) 0
        [page 610 16, page 650 32, page 700 48] = ([Fin (100 / 48)], False)
   \<and> length [page 610 16] \<le> CAPTURE_DELTA_FRAME_COUNT config
   \<and> sampleRun (CAPTURE_DELTA_FRAME_COUNT config) (now (page 600 0)) (getScrollTop (page 600 0)) 0
        [page 610 16] = ([], True)
   \<and> 0 \<noteq> CAPTURE_DELTA_FRAME_COUNT config
   \<and> rafDelta config (page 610 16) Leave 0 (Fin 0) (Fin 600) init_state
        = init_state\<lparr>rafNext := [RafDelta Leave 1 (Fin 0) (Fin 600)]\<rparr>"
  using sampler_reports_once[of config "[page 610 16, page 650 32, page 700 48]" "page 600 0" "[page 610 16]"
      Leave init_state 0 "page 610 16" "Fin 0" "Fin 600"]
  by (simp add: config_def page_def getScrollTop_def getRoot_def js_sub_def init_state_def)

text \<open>
  A sample that ends in the instant it started, with the offset where it was, reports
  \<open>0 / 0\<close>, which is \<open>NaN\<close>. \<open>NaN >= enterDelta\<close> is false: the hidden header stays hidden,
  where a finite speed that meets the threshold shows it.
\<close>

theorem nan_speed_keeps_flag:
  "rafDelta_tick 2 (Fin 5) (Fin 300) 2 (page 300 5) = Captured NaN
   \<and> \<not> isVisible (rafDelta config (page 300 5) Enter 2 (Fin 5) (Fin 300) (init_state\<lparr>isVisible := False\<rparr>))
   \<and> isVisible (onCaptured config Enter (Fin (1/2)) (init_state\<lparr>isVisible := False\<rparr>))"
  by (simp add: rafDelta_def rafDelta_tick_def page_def config_def getScrollTop_def getRoot_def
      js_sub_def init_state_def js_ge_def js_le_def)

text \<open>
  Claim C4, amended. A speed of \<open>+Infinity\<close> (no time elapsed, the offset changed) meets
  every threshold that is a number, and the flag is set as for a finite speed at or above
  the threshold. A speed of \<open>NaN\<close> (no time elapsed, the offset unchanged) meets no
  threshold: the flag keeps its value and only the guard is raised again.
\<close>

theorem infinite_speed_meets_threshold:
  "(enterDelta P \<noteq> NaN \<longrightarrow> onCaptured P Enter PInf s = s\<lparr>isVisible := True, captureEnterDelta := True\<rparr>)
   \<and> (leaveDelta P \<noteq> NaN \<longrightarrow> onCaptured P Leave PInf s = s\<lparr>isVisible := False, captureLeaveDelta := True\<rparr>)
   \<and> onCaptured P Enter NaN s = s\<lparr>captureEnterDelta := True\<rparr>
   \<and> onCaptured P Leave NaN s = s\<lparr>captureLeaveDelta := True\<rparr>
   \<and> (now e = Fin t \<and> getScrollTop e = Fin y' \<longrightarrow>
        rafDelta_tick n (Fin t) (Fin y) n e = Captured (if y = y' then NaN else PInf))"
  by (simp add: js_ge_PInf js_ge_NaN rafDelta_tick_def js_sub_def)

theorem infinite_speed_meets_threshold_witness:
  "enterDelta config \<noteq> NaN \<and> leaveDelta config \<noteq> NaN
   \<and> isVisible (onCaptured config Enter PInf (init_state\<lparr>isVisible := False\<rparr>))
   \<and> \<not> isVisible (onCaptured config Leave PInf init_state)
   \<and> now (page 300 5) = Fin 5 \<and> getScrollTop (page 300 5) = Fin 300
   \<and> rafDelta_tick 2 (Fin 5) (Fin 250) 2 (page 300 5) = Captured PInf"
  using infinite_speed_meets_threshold[of config "init_state\<lparr>isVisible := False\<rparr>" "page 300 5" 5 300 2 250]
        infinite_speed_meets_threshold[of config init_state "page 300 5" 5 300 2 250]
  by (simp add: config_def page_def getScrollTop_def getRoot_def)

text \<open>
  Claim C2. In every reachable state each direction has at most one sample in flight,
  and a scroll event moving in a direction that has one starts no sample: the
  animation-frame callbacks are those of before.
\<close>

theorem one_sample_per_direction:
  "reachable P s \<Longrightarrow>
     inFlight Enter s \<le> 1 \<and> inFlight Leave s \<le> 1
     \<and> (0 < inFlight d s \<and> moving d e s \<longrightarrow>
          rafCurrent (onScroll P e s) = rafCurrent s \<and> rafNext (onScroll P e s) = rafNext s)"
proof -
  assume "reachable P s"
  then have inv: "sampling_inv s" by (rule reachable_sampling_inv)
  have a: "inFlight Enter s \<le> 1 \<and> inFlight Leave s \<le> 1"
    using inv by (auto simp: sampling_inv_def split: if_splits)
  have b: "0 < inFlight d s \<Longrightarrow> \<not> guard d s"
    using inv by (cases d) (auto simp: sampling_inv_def split: if_splits)
  have c: "\<not> guard d s \<Longrightarrow> moving d e s \<Longrightarrow> rafNext (onScroll P e s) = rafNext s"
    by (cases d) (auto simp: onScroll_def captureDelta_def Let_def js_gt_def dest: js_lt_asym)
  show ?thesis using a b c by simp
qed

theorem one_sample_per_direction_witness:
  "reachable config scrolledDown
   \<and> inFlight Enter scrolledDown = 0 \<and> inFlight Leave scrolledDown = 1
   \<and> moving Leave (page 700 30) scrolledDown
   \<and> rafCurrent (onScroll config (page 700 30) scrolledDown) = []
   \<and> rafNext (onScroll config (page 700 30) scrolledDown)
        = [Restoration, RafDelta Leave 0 (Fin 20) (Fin 600)]"
proof -
  have r: "reachable config scrolledDown" by (rule reachable_scrolledDown)
  have f: "inFlight Enter scrolledDown = 0 \<and> inFlight Leave scrolledDown = 1"
    by (simp add: scrolledDown_eq inFlight_def init_state_def)
  have m: "moving Leave (page 700 30) scrolledDown"
    by (simp add: scrolledDown_eq page_def getScrollTop_def getRoot_def js_gt_def)
  have q: "rafCurrent scrolledDown = [] \<and> rafNext scrolledDown = [Restoration, RafDelta Leave 0 (Fin 20) (Fin 600)]"
    by (simp add: scrolledDown_eq init_state_def)
  show ?thesis
    using one_sample_per_direction[OF r, of Leave "page 700 30"] r f m q by simp
qed

text \<open>
  Claim C10. The callback of a sample raises the guard of its direction whatever the
  speed it is given, so the call of \<open>rafDelta\<close> that reports does; and with the guard up,
  a scroll event moving in that direction (beyond the header's height, \<open>prevTop\<close> not 0)
  starts a new sample.
\<close>

theorem guard_rearmed:
  "guard d (onCaptured P d v s)
   \<and> guard d (rafDelta P e d (CAPTURE_DELTA_FRAME_COUNT P) startMs startY s)
   \<and> (guard d s' \<and> moving d e' s' \<and> \<not> js_le (getScrollTop e') (getHeaderHeight e')
        \<and> \<not> js_eq (prevTop s') (Fin 0)
      \<longrightarrow> rafNext (onScroll P e' s') = rafNext s' @ [RafDelta d 0 (now e') (getScrollTop e')]
          \<and> \<not> guard d (onScroll P e' s'))"
  by (cases d) (auto simp: rafDelta_def rafDelta_tick_def onScroll_def captureDelta_def Let_def js_lt_not_gt)

theorem guard_rearmed_witness:
  "guard Leave (rafDelta config (page 602 50) Leave 2 (Fin 20) (Fin 600) scrolledDown)
   \<and> isVisible (rafDelta config (page 602 50) Leave 2 (Fin 20) (Fin 600) scrolledDown)
   \<and> moving Leave (page 700 60) (rafDelta config (page 602 50) Leave 2 (Fin 20) (Fin 600) scrolledDown)
   \<and> \<not> js_le (getScrollTop (page 700 60)) (getHeaderHeight (page 700 60))
   \<and> \<not> js_eq (prevTop (rafDelta config (page 602 50) Leave 2 (Fin 20) (Fin 600) scrolledDown)) (Fin 0)
   \<and> rafNext (onScroll config (page 700 60) (rafDelta config (page 602 50) Leave 2 (Fin 20) (Fin 600) scrolledDown))
       = [Restoration, RafDelta Leave 0 (Fin 20) (Fin 600), RafDelta Leave 0 (Fin 60) (Fin 700)]"
  using guard_rearmed[of Leave config "Fin 0" scrolledDown "page 602 50" "Fin 20" "Fin 600"
      "rafDelta config (page 602 50) Leave 2 (Fin 20) (Fin 600) scrolledDown" "page 700 60"]
  by (simp add: scrolledDown_eq) (simp add: rafDelta_def rafDelta_tick_def model_defs)

section \<open>Styles\<close>




text \<open>
  Claim C7. \<open>onHidden\<close> writes the leave styles to the target and stores the
  \<open>ontransitionend\<close> handler. When the transition ends, the handler writes
  \<open>visibility: hidden\<close> exactly if \<open>isVisible\<close> is false at that moment (to the target, where
  it is still the same element), and clears itself either way: a second \<open>transitionend\<close>
  event changes nothing.
\<close>

theorem onHidden_two_phase:
  "(targetRef e = Some el \<longrightarrow>
      onHidden P e s = s\<lparr>inlineStyle := (inlineStyle s)(el := assign (inlineStyle s el) (leaveStyles P)),
                          ontransitionend := (ontransitionend s)(el := True)\<rparr>)
   \<and> (ontransitionend s' el \<longrightarrow>
        transitionend e' el s' =
          (if \<not> isVisible s' then setStyles e' VISIBILITY_HIDDEN s' else s')
            \<lparr>ontransitionend := (ontransitionend s')(el := False)\<rparr>)
   \<and> (ontransitionend s' el \<and> targetRef e' = Some el \<and> \<not> isVisible s' \<longrightarrow>
        inlineStyle (transitionend e' el s') el ''visibility'' = Some ''hidden'')
   \<and> (ontransitionend s'' el \<and> isVisible s'' \<longrightarrow>
        inlineStyle (transitionend e' el s'') = inlineStyle s'')
   \<and> \<not> ontransitionend (transitionend e' el s') el
   \<and> transitionend e'' el (transitionend e' el s') = transitionend e' el s'"
  by (auto simp: onHidden_def setStyles_def transitionend_def Let_def assign_def VISIBILITY_HIDDEN_def
      split: option.splits)

theorem onHidden_two_phase_witness:
  "targetRef (page 600 40) = Some (Element 1)
   \<and> ontransitionend (onHidden config (page 600 40) (scrolledDown\<lparr>isVisible := False\<rparr>)) (Element 1)
   \<and> inlineStyle (onHidden config (page 600 40) (scrolledDown\<lparr>isVisible := False\<rparr>)) (Element 1) ''transform''
        = Some ''translateY(-100%)''
   \<and> inlineStyle (onHidden config (page 600 40) (scrolledDown\<lparr>isVisible := False\<rparr>)) (Element 1) ''visibility''
        = None
   \<and> \<not> isVisible (onHidden config (page 600 40) (scrolledDown\<lparr>isVisible := False\<rparr>))
   \<and> inlineStyle (transitionend (page 600 300) (Element 1)
         (onHidden config (page 600 40) (scrolledDown\<lparr>isVisible := False\<rparr>))) (Element 1) ''visibility''
        = Some ''hidden''
   \<and> ontransitionend ((onHidden config (page 600 40) scrolledDown)\<lparr>isVisible := True\<rparr>) (Element 1)
   \<and> isVisible ((onHidden config (page 600 40) scrolledDown)\<lparr>isVisible := True\<rparr>)
   \<and> inlineStyle (transitionend (page 600 300) (Element 1)
         ((onHidden config (page 600 40) scrolledDown)\<lparr>isVisible := True\<rparr>)) (Element 1) ''visibility''
        = None"
  using onHidden_two_phase[of "page 600 40" "Element 1" config "scrolledDown\<lparr>isVisible := False\<rparr>"
      "onHidden config (page 600 40) (scrolledDown\<lparr>isVisible := False\<rparr>)" "page 600 300"
      "(onHidden config (page 600 40) scrolledDown)\<lparr>isVisible := True\<rparr>" "page 600 300"]
  by (simp add: scrolledDown_eq) (simp add: onHidden_def setStyles_def transitionend_def assign_def
      page_def config_def init_state_def VISIBILITY_HIDDEN_def)

section \<open>Teardown\<close>




text \<open>
  Claim C9. \<open>toggleScollListener\<close> removes the listener from the root it finds when it is
  called. After the option \<open>root\<close> went from the element 2 to the element 3, unmounting
  removes the listener of the element 3 only: \<open>onScroll\<close> stays registered on the element 2
  while \<open>isListeningScroll\<close> is false.
\<close>

theorem unmount_keeps_old_root_listener:
  "reachable config (step config (Unmount (pageIn (Element 3) 0 0)) rootSwapped)
   \<and> scrollListeners (step config (Unmount (pageIn (Element 3) 0 0)) rootSwapped) = {Node (Element 2)}
   \<and> \<not> isListeningScroll (step config (Unmount (pageIn (Element 3) 0 0)) rootSwapped)"
proof -
  have "reachable config (step config (Unmount (pageIn (Element 3) 0 0)) rootSwapped)"
    by (intro reachable_step reachable_rootSwapped)
  moreover have "scrollListeners (step config (Unmount (pageIn (Element 3) 0 0)) rootSwapped) = {Node (Element 2)}"
    by (simp add: rootSwapped_eq) (simp add: model_defs insert_Diff_if)
  moreover have "\<not> isListeningScroll (step config (Unmount (pageIn (Element 3) 0 0)) rootSwapped)"
    by (simp add: rootSwapped_eq) (simp add: model_defs)
  ultimately show ?thesis by simp
qed

end
